theory Spec2Isabelle
  imports Complex_Main
begin

section \<open>Imagery: a wrapper around a raster library\<close>

text \<open>
  The development follows \<^verbatim>\<open>imagery/__init__.py\<close>. Python exceptions are values of
  \<open>exn\<close>; a call that may raise returns \<open>exn + 'a\<close> with \<open>Inl\<close> for the exception.
\<close>

datatype exn =
  AttributeError | NameError | ZeroDivisionError | ValueError | TypeError
  | RuntimeError | StructError | OverflowError

subsection \<open>Floating-point numbers\<close>

text \<open>
  A Python float and an element of a floating-point raster are IEEE 754 binary numbers:
  NaN, the two infinities, or a finite value, held here as the real number it denotes.
  The two zeros are identified: they are equal in Python, and dividing by either raises.
\<close>

datatype npfloat = NaN | PInf | NInf | Fin real

text \<open>
  Rounding a real number to a binary format with \<open>p\<close> significant bits and exponents
  from \<open>emin\<close> to \<open>emax\<close>, to nearest with ties to even. \<open>expo_up\<close> and \<open>expo_down\<close>
  find the exponent of the leading bit of a positive number, no lower than \<open>emin\<close>
  (below it the numbers are subnormal and share one spacing) and no higher than
  \<open>emax + 1\<close> (from there on the result is an infinity).
\<close>

function expo_up :: "int \<Rightarrow> real \<Rightarrow> int \<Rightarrow> int" where
  "expo_up emax x e =
     (if e \<le> emax \<and> 2 powi (e + 1) \<le> x then expo_up emax x (e + 1) else e)"
  by pat_completeness auto
termination
  by (relation "measure (\<lambda>(emax, x, e). nat (emax + 1 - e))") auto

function expo_down :: "int \<Rightarrow> real \<Rightarrow> int \<Rightarrow> int" where
  "expo_down emin x e =
     (if emin < e \<and> x < 2 powi e then expo_down emin x (e - 1) else e)"
  by pat_completeness auto
termination
  by (relation "measure (\<lambda>(emin, x, e). nat (e - emin))") auto

definition round_half_even :: "real \<Rightarrow> int" where
  "round_half_even q =
     (let f = \<lfloor>q\<rfloor>; d = q - of_int f
      in if d < 1 / 2 then f else if 1 / 2 < d then f + 1 else if even f then f else f + 1)"

definition fround :: "int \<Rightarrow> int \<Rightarrow> int \<Rightarrow> real \<Rightarrow> npfloat" where
  "fround p emin emax x =
     (if x = 0 then Fin 0
      else
        let e = (if 1 \<le> \<bar>x\<bar> then expo_up emax \<bar>x\<bar> 0 else expo_down emin \<bar>x\<bar> 0);
            u = 2 powi (e - p + 1);
            r = of_int (round_half_even (x / u)) * u
        in if 2 powi (emax + 1) \<le> \<bar>r\<bar> then (if 0 < x then PInf else NInf) else Fin r)"

text \<open>Single precision (\<^verbatim>\<open>float32\<close>) and double precision (\<^verbatim>\<open>float64\<close>, the Python float).\<close>

definition to_float32 :: "real \<Rightarrow> npfloat" where
  "to_float32 x = fround 24 (-126) 127 x"

definition to_float64 :: "real \<Rightarrow> npfloat" where
  "to_float64 x = fround 53 (-1022) 1023 x"

text \<open>
  Python's \<^verbatim>\<open>+\<close>, \<^verbatim>\<open>-\<close>, \<^verbatim>\<open>*\<close> and \<^verbatim>\<open>/\<close> on floats: the exact result rounded to double
  precision, with the IEEE rules for NaN and the infinities. Overflow gives an infinity and
  raises nothing; \<^verbatim>\<open>/\<close> raises \<^verbatim>\<open>ZeroDivisionError\<close> when the divisor is zero, whatever the
  dividend.
\<close>

fun fsign :: "npfloat \<Rightarrow> int" where
  "fsign NaN = 0"
| "fsign PInf = 1"
| "fsign NInf = - 1"
| "fsign (Fin r) = (if 0 < r then 1 else if r < 0 then - 1 else 0)"

fun fneg :: "npfloat \<Rightarrow> npfloat" where
  "fneg NaN = NaN"
| "fneg PInf = NInf"
| "fneg NInf = PInf"
| "fneg (Fin r) = Fin (- r)"

fun fadd :: "npfloat \<Rightarrow> npfloat \<Rightarrow> npfloat" where
  "fadd (Fin a) (Fin b) = to_float64 (a + b)"
| "fadd NaN b = NaN"
| "fadd a NaN = NaN"
| "fadd PInf NInf = NaN"
| "fadd NInf PInf = NaN"
| "fadd PInf b = PInf"
| "fadd NInf b = NInf"
| "fadd (Fin a) b = b"

definition fsub :: "npfloat \<Rightarrow> npfloat \<Rightarrow> npfloat" where
  "fsub a b = fadd a (fneg b)"

fun fmul :: "npfloat \<Rightarrow> npfloat \<Rightarrow> npfloat" where
  "fmul (Fin a) (Fin b) = to_float64 (a * b)"
| "fmul NaN b = NaN"
| "fmul a NaN = NaN"
| "fmul a b =
     (let s = fsign a * fsign b in if s = 0 then NaN else if 0 < s then PInf else NInf)"

fun truediv :: "npfloat \<Rightarrow> npfloat \<Rightarrow> exn + npfloat" where
  "truediv a (Fin b) =
     (if b = 0 then Inl ZeroDivisionError
      else (case a of
              Fin x \<Rightarrow> Inr (to_float64 (x / b))
            | NaN \<Rightarrow> Inr NaN
            | PInf \<Rightarrow> Inr (if 0 < b then PInf else NInf)
            | NInf \<Rightarrow> Inr (if 0 < b then NInf else PInf)))"
| "truediv a NaN = Inr NaN"
| "truediv (Fin x) b = Inr (Fin 0)"
| "truediv NaN b = Inr NaN"
| "truediv a b = Inr NaN"

subsection \<open>Geometries and \<^verbatim>\<open>shapely.ops.transform\<close>\<close>

text \<open>
  A vertex is \<open>(x, y)\<close> or \<open>(x, y, z)\<close>: the third component is \<open>None\<close> for a
  two-dimensional vertex, as the default \<^verbatim>\<open>z=None\<close> of \<^verbatim>\<open>project_coord\<close> has it.
  Points, line strings and polygons (a shell and its holes) are the geometries modelled.
\<close>

type_synonym coord = "npfloat \<times> npfloat \<times> npfloat option"

datatype geometry =
  Point coord
  | LineString "coord list"
  | Polygon "coord list" "coord list list"

fun map_exn :: "('a \<Rightarrow> exn + 'b) \<Rightarrow> 'a list \<Rightarrow> exn + 'b list" where
  "map_exn f [] = Inr []"
| "map_exn f (x # xs) =
     (case f x of
        Inl e \<Rightarrow> Inl e
      | Inr y \<Rightarrow> (case map_exn f xs of Inl e \<Rightarrow> Inl e | Inr ys \<Rightarrow> Inr (y # ys)))"

text \<open>
  \<^verbatim>\<open>transform(func, geom)\<close> applied to a function of single values: the function is
  called on each vertex in order, \<^verbatim>\<open>[func(*c) for c in geom.coords]\<close>, the shell before the
  holes, and the first exception ends the call.
\<close>

fun transform :: "(coord \<Rightarrow> exn + coord) \<Rightarrow> geometry \<Rightarrow> exn + geometry" where
  "transform func (Point c) =
     (case func c of Inl e \<Rightarrow> Inl e | Inr c' \<Rightarrow> Inr (Point c'))"
| "transform func (LineString cs) =
     (case map_exn func cs of Inl e \<Rightarrow> Inl e | Inr cs' \<Rightarrow> Inr (LineString cs'))"
| "transform func (Polygon shell holes) =
     (case map_exn func shell of
        Inl e \<Rightarrow> Inl e
      | Inr shell' \<Rightarrow>
          (case map_exn (map_exn func) holes of
             Inl e \<Rightarrow> Inl e
           | Inr holes' \<Rightarrow> Inr (Polygon shell' holes')))"

subsection \<open>The wrapped library's objects\<close>

text \<open>The six coefficients \<^verbatim>\<open>g[0]\<close> .. \<^verbatim>\<open>g[5]\<close> returned by \<^verbatim>\<open>GetGeoTransform()\<close>.\<close>

record geotransform =
  g0 :: npfloat
  g1 :: npfloat
  g2 :: npfloat
  g3 :: npfloat
  g4 :: npfloat
  g5 :: npfloat

text \<open>
  A raster array is a list of rows: of integers (the library's integer pixel types have at
  most 32 bits), or of floats in single or double precision. Rasters of complex numbers
  are not modelled.
\<close>

datatype float_dtype = Float32 | Float64

datatype ndarray = IntArray "int list list" | FloatArray float_dtype "npfloat list list"

text \<open>
  A raster band of the library: its declared no-data value (\<^verbatim>\<open>GetNoDataValue()\<close>, a float
  or \<^verbatim>\<open>None\<close>), the outcome of \<^verbatim>\<open>ReadAsArray()\<close>, and \<^verbatim>\<open>ReadRaster(xoff, yoff, xsize, ysize)\<close>
  returning a buffer of bytes.
\<close>

record gdal_band =
  GetNoDataValue :: "npfloat option"
  ReadAsArray :: "exn + ndarray"
  ReadRaster :: "int \<Rightarrow> int \<Rightarrow> int \<Rightarrow> int \<Rightarrow> exn + nat list"

record gdal_dataset =
  RasterYSize :: int
  RasterXSize :: int
  GetGeoTransform :: geotransform
  RasterBands :: "gdal_band list"
  GetProjection :: "exn + string"

text \<open>
  \<^verbatim>\<open>GetRasterBand(n)\<close> counts bands from 1; the module calls \<^verbatim>\<open>G.UseExceptions()\<close>, so an
  illegal band number raises.
\<close>

definition GetRasterBand :: "gdal_dataset \<Rightarrow> int \<Rightarrow> exn + gdal_band" where
  "GetRasterBand h n =
     (if 1 \<le> n \<and> n \<le> int (length (RasterBands h))
      then Inr (RasterBands h ! nat (n - 1))
      else Inl RuntimeError)"

text \<open>Spatial references and coordinate-system dictionaries of the projection libraries.\<close>

datatype srs = SpatialReference string

type_synonym crs = "(string \<times> string) list"

text \<open>
  The calls into the libraries that \<^verbatim>\<open>Dataset.__init__\<close> makes. \<^verbatim>\<open>CloneGeogCS\<close> returns
  \<^verbatim>\<open>None\<close> when the reference has no geographic coordinate system.
\<close>

record library =
  G_Open :: "string \<Rightarrow> exn + gdal_dataset"
  ImportFromWkt :: "srs \<Rightarrow> string \<Rightarrow> exn + srs"
  ExportToProj4 :: "srs \<Rightarrow> exn + string"
  CloneGeogCS :: "srs \<Rightarrow> exn + srs option"
  from_string :: "string \<Rightarrow> exn + crs"

subsection \<open>\<^verbatim>\<open>Dataset\<close>\<close>

text \<open>
  The attributes of a \<^verbatim>\<open>Dataset\<close> object. \<open>gdal\<close> is \<^verbatim>\<open>__gdal__\<close>; an attribute that has
  not been assigned is \<open>None\<close>. \<^verbatim>\<open>__dataset__\<close> of a dataset is the dataset itself, so the
  methods of \<^verbatim>\<open>RasterProxy\<close> below take the dataset: a band passes its \<open>b_dataset\<close>.
\<close>

record dataset =
  gdal :: "gdal_dataset option"
  shape :: "int \<times> int"
  wkt :: "string option"
  osr :: "srs option"
  crs_of :: "crs option"
  gcs :: "crs option"
  projected :: "bool option"

text \<open>
  The body of the \<^verbatim>\<open>try\<close> block of the constructor: the exception that ended it, if any,
  and the object with the attributes assigned up to that point.
\<close>

definition projection_block ::
  "library \<Rightarrow> gdal_dataset \<Rightarrow> dataset \<Rightarrow> exn option \<times> dataset" where
  "projection_block lib h self0 =
     (case GetProjection h of
        Inl e \<Rightarrow> (Some e, self0)
      | Inr w \<Rightarrow>
     let self1 = self0\<lparr>wkt := Some w\<rparr>;
         self2 = self1\<lparr>osr := Some (SpatialReference [])\<rparr> in
     (case ImportFromWkt lib (SpatialReference []) w of
        Inl e \<Rightarrow> (Some e, self2)
      | Inr s \<Rightarrow>
     let self3 = self2\<lparr>osr := Some s\<rparr> in
     (case ExportToProj4 lib s of
        Inl e \<Rightarrow> (Some e, self3)
      | Inr p \<Rightarrow>
     (case from_string lib p of
        Inl e \<Rightarrow> (Some e, self3)
      | Inr c \<Rightarrow>
     let self4 = self3\<lparr>crs_of := Some c\<rparr> in
     (case CloneGeogCS lib s of
        Inl e \<Rightarrow> (Some e, self4)
      | Inr None \<Rightarrow> (Some AttributeError, self4)
      | Inr (Some gs) \<Rightarrow>
     (case ExportToProj4 lib gs of
        Inl e \<Rightarrow> (Some e, self4)
      | Inr p' \<Rightarrow>
     (case from_string lib p' of
        Inl e \<Rightarrow> (Some e, self4)
      | Inr c' \<Rightarrow> (None, self4\<lparr>gcs := Some c', projected := Some True\<rparr>))))))))"

text \<open>The object when the \<^verbatim>\<open>try\<close> block is entered: \<^verbatim>\<open>__gdal__\<close> and \<^verbatim>\<open>shape\<close> are set.\<close>

definition Dataset_blank :: "gdal_dataset \<Rightarrow> dataset" where
  "Dataset_blank h =
     \<lparr>gdal = Some h, shape = (RasterYSize h, RasterXSize h),
      wkt = None, osr = None, crs_of = None, gcs = None, projected = None\<rparr>"

text \<open>
  \<^verbatim>\<open>Dataset.__init__\<close>: \<^verbatim>\<open>except AttributeError\<close> handles that exception of the block and
  no other.
\<close>

definition Dataset_init :: "library \<Rightarrow> string \<Rightarrow> exn + dataset" where
  "Dataset_init lib filename =
     (case G_Open lib filename of
        Inl e \<Rightarrow> Inl e
      | Inr h \<Rightarrow>
          (case projection_block lib h (Dataset_blank h) of
             (None, self1) \<Rightarrow> Inr self1
           | (Some e, self1) \<Rightarrow>
               if e = AttributeError then Inr (self1\<lparr>projected := Some False\<rparr>)
               else Inl e))"

definition close :: "dataset \<Rightarrow> dataset" where
  "close self = self\<lparr>gdal := None\<rparr>"

subsection \<open>\<^verbatim>\<open>RasterProxy\<close>: pixel and map coordinates\<close>

text \<open>
  \<^verbatim>\<open>self.__dataset__.__gdal__.GetGeoTransform()\<close>: on a closed dataset \<^verbatim>\<open>__gdal__\<close> is
  \<^verbatim>\<open>None\<close> and the attribute access raises.
\<close>

definition geomatrix :: "dataset \<Rightarrow> exn + geotransform" where
  "geomatrix ds = (case gdal ds of None \<Rightarrow> Inl AttributeError | Some h \<Rightarrow> Inr (GetGeoTransform h))"

text \<open>
  \<^verbatim>\<open>int(i)\<close> on a float truncates towards zero; it raises \<^verbatim>\<open>ValueError\<close> on NaN and
  \<^verbatim>\<open>OverflowError\<close> on an infinity. The integer is exact, and so is the float that the
  geometry holds for it.
\<close>

fun py_int :: "npfloat \<Rightarrow> exn + npfloat" where
  "py_int NaN = Inl ValueError"
| "py_int PInf = Inl OverflowError"
| "py_int NInf = Inl OverflowError"
| "py_int (Fin r) = Inr (Fin (of_int (if 0 \<le> r then \<lfloor>r\<rfloor> else \<lceil>r\<rceil>)))"

text \<open>
  \<^verbatim>\<open>project_coord\<close> of \<^verbatim>\<open>pixel_coordinates\<close>. The geomatrix is read inside the function, at
  each vertex; \<open>x\<close> is divided before \<open>y\<close>.
\<close>

definition pixel_project_coord :: "dataset \<Rightarrow> bool \<Rightarrow> coord \<Rightarrow> exn + coord" where
  "pixel_project_coord ds snap c =
     (case c of (x, y, z) \<Rightarrow>
      (case geomatrix ds of
         Inl e \<Rightarrow> Inl e
       | Inr g \<Rightarrow>
      (case truediv (fsub x (g0 g)) (g1 g) of
         Inl e \<Rightarrow> Inl e
       | Inr x' \<Rightarrow>
      (case truediv (fsub y (g3 g)) (g5 g) of
         Inl e \<Rightarrow> Inl e
       | Inr y' \<Rightarrow>
           if snap
           then (case py_int x' of
                   Inl e \<Rightarrow> Inl e
                 | Inr x'' \<Rightarrow>
                     (case py_int y' of Inl e \<Rightarrow> Inl e | Inr y'' \<Rightarrow> Inr (x'', y'', z)))
           else Inr (x', y', z)))))"

definition pixel_coordinates :: "dataset \<Rightarrow> geometry \<Rightarrow> bool \<Rightarrow> exn + geometry" where
  "pixel_coordinates ds geom snap = transform (pixel_project_coord ds snap) geom"

text \<open>
  \<^verbatim>\<open>project_coord\<close> of \<^verbatim>\<open>map_coordinates\<close>. The first statement rebinds \<open>x\<close>, and the
  second statement reads that new \<open>x\<close>.
\<close>

definition map_project_coord :: "geotransform \<Rightarrow> coord \<Rightarrow> coord" where
  "map_project_coord g c =
     (case c of (x, y, z) \<Rightarrow>
        let x1 = fadd (fadd (g0 g) (fmul (g1 g) x)) (fmul (g2 g) y);
            y1 = fadd (fadd (g3 g) (fmul (g4 g) x1)) (fmul (g5 g) y)
        in (x1, y1, z))"

definition map_coordinates :: "dataset \<Rightarrow> geometry \<Rightarrow> exn + geometry" where
  "map_coordinates ds geom =
     (case geomatrix ds of
        Inl e \<Rightarrow> Inl e
      | Inr g \<Rightarrow> transform (\<lambda>c. Inr (map_project_coord g c)) geom)"

text \<open>
  The affine map as the specification words it, \<open>x' = a + b\<cdot>x + c\<cdot>y\<close> and
  \<open>y' = d + e\<cdot>x + f\<cdot>y\<close>, in the same floating-point arithmetic, for comparison with the
  two functions above.
\<close>

definition affine_spec :: "geotransform \<Rightarrow> coord \<Rightarrow> coord" where
  "affine_spec g c =
     (case c of (x, y, z) \<Rightarrow>
        (fadd (fadd (g0 g) (fmul (g1 g) x)) (fmul (g2 g) y),
         fadd (fadd (g3 g) (fmul (g4 g) x)) (fmul (g5 g) y), z))"

text \<open>An open dataset with the given geotransform and nothing else of interest.\<close>

definition dataset_of :: "geotransform \<Rightarrow> dataset" where
  "dataset_of g =
     \<lparr>gdal = Some \<lparr>RasterYSize = 2, RasterXSize = 3, GetGeoTransform = g,
                    RasterBands = [], GetProjection = Inl AttributeError\<rparr>,
      shape = (2, 3), wkt = None, osr = None, crs_of = None, gcs = None,
      projected = Some False\<rparr>"

subsection \<open>\<^verbatim>\<open>Band\<close>\<close>

text \<open>
  The \<^verbatim>\<open>nodata\<close> argument of \<^verbatim>\<open>get_array\<close> and the \<^verbatim>\<open>nodata\<close> attribute of a band:
  \<^verbatim>\<open>None\<close>, the string \<^verbatim>\<open>'nan'\<close> (the one string the code tests for), or a float.
\<close>

datatype nodata_val = PyNone | NanStr | PyFloat npfloat

text \<open>
  The attributes of a \<^verbatim>\<open>Band\<close> object: \<open>b_dataset\<close> is \<^verbatim>\<open>__dataset__\<close>, \<open>b_gdal\<close> is
  \<^verbatim>\<open>__gdal__\<close>, \<open>b_shape\<close> is \<^verbatim>\<open>shape\<close>. \<open>b_dataset\<close> holds the dataset as it was when
  the band was made: what is done to the dataset afterwards, closing it for one, is not
  seen through the band here, and nothing below is about a band whose dataset has changed
  since.
\<close>

record band =
  b_dataset :: dataset
  index :: int
  b_gdal :: gdal_band
  b_shape :: "int \<times> int"
  nodata :: nodata_val

definition Band_init :: "dataset \<Rightarrow> int \<Rightarrow> exn + band" where
  "Band_init ds idx =
     (case gdal ds of
        None \<Rightarrow> Inl AttributeError
      | Some h \<Rightarrow>
          (case GetRasterBand h (idx + 1) of
             Inl e \<Rightarrow> Inl e
           | Inr gb \<Rightarrow>
               Inr \<lparr>b_dataset = ds, index = idx, b_gdal = gb, b_shape = shape ds,
                    nodata = (case GetNoDataValue gb of None \<Rightarrow> PyNone | Some v \<Rightarrow> PyFloat v)\<rparr>))"

definition get_band :: "dataset \<Rightarrow> int \<Rightarrow> exn + band" where
  "get_band self idx = Band_init self idx"

text \<open>The result of \<^verbatim>\<open>get_array\<close>: a plain array, or a masked array with its mask.\<close>

datatype array_result = Plain ndarray | Masked ndarray "bool list list"

text \<open>IEEE equality of two floats of one precision: NaN equals nothing, not even NaN.\<close>

definition np_eq :: "npfloat \<Rightarrow> npfloat \<Rightarrow> bool" where
  "np_eq a b \<longleftrightarrow> a \<noteq> NaN \<and> a = b"

text \<open>
  The precision in which the array library compares an array with a Python float. The
  float does not widen an array of floats: against a \<^verbatim>\<open>float32\<close> array a float whose
  value lies strictly between \<^verbatim>\<open>-3.4e38\<close> and \<^verbatim>\<open>3.4e38\<close> is first rounded to single
  precision (the long numeral below is the double \<^verbatim>\<open>3.4e38\<close>); any other float, and
  every float against a \<^verbatim>\<open>float64\<close> array, is compared as the double it is, with the
  elements widened exactly.
\<close>

fun scalar_for :: "float_dtype \<Rightarrow> npfloat \<Rightarrow> npfloat" where
  "scalar_for Float64 v = v"
| "scalar_for Float32 (Fin r) =
     (if \<bar>r\<bar> < 339999999999999996123846586046231871488 then to_float32 r else Fin r)"
| "scalar_for Float32 v = v"

text \<open>
  \<^verbatim>\<open>arr == nodata\<close>: the element-wise comparison with a float. An integer element is
  converted to a double, exactly, and compared in double precision.
\<close>

fun eq_mask :: "ndarray \<Rightarrow> npfloat \<Rightarrow> bool list list" where
  "eq_mask (IntArray rows) v = map (map (\<lambda>e. np_eq (Fin (of_int e)) v)) rows"
| "eq_mask (FloatArray dt rows) v = map (map (\<lambda>e. np_eq e (scalar_for dt v))) rows"

text \<open>\<^verbatim>\<open>N.isnan(arr)\<close>: no element of an integer array is NaN.\<close>

fun isnan :: "ndarray \<Rightarrow> bool list list" where
  "isnan (IntArray rows) = map (map (\<lambda>e. False)) rows"
| "isnan (FloatArray dt rows) = map (map (\<lambda>e. e = NaN)) rows"

text \<open>
  \<^verbatim>\<open>arr[mask] = N.nan\<close>: NaN cannot be converted to an integer, so the assignment to an
  integer array raises \<^verbatim>\<open>ValueError\<close> and leaves the array as it was.
\<close>

fun setitem_nan :: "ndarray \<Rightarrow> bool list list \<Rightarrow> exn + ndarray" where
  "setitem_nan (IntArray rows) m = Inl ValueError"
| "setitem_nan (FloatArray dt rows) m =
     Inr (FloatArray dt (map2 (\<lambda>r mr. map2 (\<lambda>e b. if b then NaN else e) r mr) rows m))"

definition get_array :: "band \<Rightarrow> nodata_val \<Rightarrow> exn + array_result" where
  "get_array self nodata_arg =
     (case ReadAsArray (b_gdal self) of
        Inl e \<Rightarrow> Inl e
      | Inr arr \<Rightarrow>
          let nd = (if nodata_arg = PyNone then nodata self else nodata_arg) in
          if nd = NanStr then Inr (Masked arr (isnan arr))
          else (case nd of
                  PyFloat v \<Rightarrow>
                    (case setitem_nan arr (eq_mask arr v) of
                       Inl e \<Rightarrow> if e = ValueError then Inr (Plain arr) else Inl e
                     | Inr arr' \<Rightarrow> Inr (Plain arr'))
                | _ \<Rightarrow> Inr (Plain arr)))"

text \<open>
  Name lookup for \<^verbatim>\<open>get_pixel\<close>. A name that is not a parameter or a local of the function
  is looked up among the names bound at the top level of the module, then among the
  builtins of the language; a name found in neither raises \<^verbatim>\<open>NameError\<close>.
\<close>

datatype pyobj = PyInt int | PyNamed string

definition module_globals :: "string list" where
  "module_globals =
     [''__name__'', ''__doc__'', ''__file__'', ''__package__'', ''__path__'',
      ''__builtins__'', ''division'', ''struct'', ''N'', ''osr'', ''G'', ''Proj'',
      ''from_string'', ''shape'', ''transform'', ''Transformation'', ''strategies'',
      ''open'', ''RasterProxy'', ''Band'', ''Dataset'']"

definition builtins :: "string list" where
  "builtins =
     [''abs'', ''all'', ''any'', ''apply'', ''basestring'', ''bin'', ''bool'', ''buffer'',
      ''bytearray'', ''bytes'', ''callable'', ''chr'', ''classmethod'', ''cmp'', ''coerce'',
      ''compile'', ''complex'', ''copyright'', ''credits'', ''delattr'', ''dict'', ''dir'',
      ''divmod'', ''enumerate'', ''eval'', ''execfile'', ''exit'', ''file'', ''filter'',
      ''float'', ''format'', ''frozenset'', ''getattr'', ''globals'', ''hasattr'', ''hash'',
      ''help'', ''hex'', ''id'', ''input'', ''int'', ''intern'', ''isinstance'',
      ''issubclass'', ''iter'', ''len'', ''license'', ''list'', ''locals'', ''long'',
      ''map'', ''max'', ''memoryview'', ''min'', ''next'', ''object'', ''oct'', ''open'',
      ''ord'', ''pow'', ''print'', ''property'', ''quit'', ''range'', ''raw_input'',
      ''reduce'', ''reload'', ''repr'', ''reversed'', ''round'', ''set'', ''setattr'',
      ''slice'', ''sorted'', ''staticmethod'', ''str'', ''sum'', ''super'', ''tuple'',
      ''type'', ''unichr'', ''unicode'', ''vars'', ''xrange'', ''zip'', ''__import__'',
      ''__debug__'', ''True'', ''False'', ''None'', ''Ellipsis'', ''NotImplemented'',
      ''ArithmeticError'', ''AssertionError'', ''AttributeError'', ''BaseException'',
      ''BufferError'', ''BytesWarning'', ''DeprecationWarning'', ''EOFError'',
      ''EnvironmentError'', ''Exception'', ''FloatingPointError'', ''FutureWarning'',
      ''GeneratorExit'', ''IOError'', ''ImportError'', ''ImportWarning'',
      ''IndentationError'', ''IndexError'', ''KeyError'', ''KeyboardInterrupt'',
      ''LookupError'', ''MemoryError'', ''NameError'', ''NotImplementedError'',
      ''OSError'', ''OverflowError'', ''PendingDeprecationWarning'', ''ReferenceError'',
      ''RuntimeError'', ''RuntimeWarning'', ''StandardError'', ''StopIteration'',
      ''SyntaxError'', ''SyntaxWarning'', ''SystemError'', ''SystemExit'', ''TabError'',
      ''TypeError'', ''UnboundLocalError'', ''UnicodeDecodeError'', ''UnicodeEncodeError'',
      ''UnicodeError'', ''UnicodeTranslateError'', ''UnicodeWarning'', ''UserWarning'',
      ''ValueError'', ''Warning'', ''ZeroDivisionError'']"

definition load_name :: "(string \<times> pyobj) list \<Rightarrow> string \<Rightarrow> exn + pyobj" where
  "load_name locals name =
     (case map_of locals name of
        Some v \<Rightarrow> Inr v
      | None \<Rightarrow>
          if name \<in> set module_globals \<or> name \<in> set builtins then Inr (PyNamed name)
          else Inl NameError)"

fun as_int :: "pyobj \<Rightarrow> exn + int" where
  "as_int (PyInt i) = Inr i"
| "as_int (PyNamed n) = Inl TypeError"

text \<open>\<^verbatim>\<open>struct.unpack('h', structval)[0]\<close>: two bytes, low byte first, as a signed short.\<close>

definition unpack_h :: "nat list \<Rightarrow> exn + int" where
  "unpack_h s =
     (case s of
        [lo, hi] \<Rightarrow>
          let u = int lo + 256 * int hi in Inr (if u < 32768 then u else u - 65536)
      | _ \<Rightarrow> Inl StructError)"

text \<open>
  \<^verbatim>\<open>get_pixel(self, x, y)\<close>: the arguments of \<^verbatim>\<open>ReadRaster\<close> are evaluated from left to
  right, \<^verbatim>\<open>px\<close> first.
\<close>

definition get_pixel :: "band \<Rightarrow> pyobj \<Rightarrow> pyobj \<Rightarrow> exn + int" where
  "get_pixel self x y =
     (let locals = [(''self'', PyNamed ''self''), (''x'', x), (''y'', y)] in
      case load_name locals ''px'' of
        Inl e \<Rightarrow> Inl e
      | Inr px \<Rightarrow>
      (case load_name locals ''py'' of
        Inl e \<Rightarrow> Inl e
      | Inr py \<Rightarrow>
      (case as_int px of
        Inl e \<Rightarrow> Inl e
      | Inr xoff \<Rightarrow>
      (case as_int py of
        Inl e \<Rightarrow> Inl e
      | Inr yoff \<Rightarrow>
      (case ReadRaster (b_gdal self) xoff yoff 1 1 of
        Inl e \<Rightarrow> Inl e
      | Inr structval \<Rightarrow> unpack_h structval)))))"

text \<open>
  The modules \<^verbatim>\<open>strategies\<close> and \<^verbatim>\<open>area\<close> and the \<^verbatim>\<open>area\<close> property of a geometry are
  outside this file; they are parameters: \<open>nearest\<close> is \<^verbatim>\<open>strategies.nearest\<close>,
  \<open>dataset_extract_area ds geom bands\<close> is \<^verbatim>\<open>ds.extract_area(geom, bands=bands)\<close>.
\<close>

type_synonym strategy = "array_result \<Rightarrow> geometry \<Rightarrow> exn + geometry"

record helpers =
  nearest :: strategy
  dataset_extract_area :: "dataset \<Rightarrow> geometry \<Rightarrow> int list \<Rightarrow> exn + geometry"
  area :: "geometry \<Rightarrow> npfloat"

definition extract_area :: "helpers \<Rightarrow> band \<Rightarrow> geometry \<Rightarrow> exn + geometry" where
  "extract_area env self pixel_geometry =
     dataset_extract_area env (b_dataset self) pixel_geometry [index self]"

definition extract_pixels :: "helpers \<Rightarrow> band \<Rightarrow> geometry \<Rightarrow> strategy \<Rightarrow> exn + geometry" where
  "extract_pixels env self pixel_geometry strategy =
     (if area env pixel_geometry = Fin 0
      then (case get_array self PyNone of
              Inl e \<Rightarrow> Inl e
            | Inr arr \<Rightarrow> strategy arr pixel_geometry)
      else extract_area env self pixel_geometry)"

text \<open>
  \<^verbatim>\<open>extract(self, geometry, strategy=strategies.nearest)\<close>, named \<open>Band_extract\<close> here: the call of
  \<^verbatim>\<open>extract_pixels\<close> passes one argument, so its \<^verbatim>\<open>strategy\<close> takes the default.
\<close>

definition Band_extract :: "helpers \<Rightarrow> band \<Rightarrow> geometry \<Rightarrow> strategy \<Rightarrow> exn + geometry" where
  "Band_extract env self geom strategy =
     (case pixel_coordinates (b_dataset self) geom False of
        Inl e \<Rightarrow> Inl e
      | Inr pg \<Rightarrow>
          (case extract_pixels env self pg (nearest env) of
             Inl e \<Rightarrow> Inl e
           | Inr pixels \<Rightarrow> map_coordinates (b_dataset self) pixels))"

subsection \<open>The context manager \<^verbatim>\<open>open\<close>\<close>

record open_mgr =
  image :: dataset

definition open_init :: "library \<Rightarrow> string \<Rightarrow> exn + open_mgr" where
  "open_init lib filename =
     (case Dataset_init lib filename of Inl e \<Rightarrow> Inl e | Inr d \<Rightarrow> Inr \<lparr>image = d\<rparr>)"

definition open_enter :: "open_mgr \<Rightarrow> dataset" where
  "open_enter self = image self"

text \<open>
  \<^verbatim>\<open>__exit__(self, exception_type, exception_val, trace)\<close>: the second argument here is the
  exception of the body, if any. The method returns \<^verbatim>\<open>None\<close>, so the exception is not
  suppressed.
\<close>

definition open_exit :: "open_mgr \<Rightarrow> exn option \<Rightarrow> open_mgr" where
  "open_exit self exc = self\<lparr>image := close (image self)\<rparr>"

text \<open>
  \<^verbatim>\<open>with open(filename) as im: body\<close>. The body works on the very object the manager
  holds, so the manager sees the body's changes to it; the body's outcome, exception or
  value, is the outcome of the statement.
\<close>

definition with_open ::
  "library \<Rightarrow> string \<Rightarrow> (dataset \<Rightarrow> (exn + 'a) \<times> dataset) \<Rightarrow> (exn + 'a) \<times> open_mgr option" where
  "with_open lib filename body =
     (case open_init lib filename of
        Inl e \<Rightarrow> (Inl e, None)
      | Inr mgr \<Rightarrow>
          (case body (open_enter mgr) of
             (r, d) \<Rightarrow>
               let mgr1 = mgr\<lparr>image := d\<rparr>;
                   exc = (case r of Inl e \<Rightarrow> Some e | Inr v \<Rightarrow> None)
               in (r, Some (open_exit mgr1 exc))))"

subsection \<open>Concrete inputs\<close>

text \<open>A north-up grid, and a grid whose rows are sheared (\<open>g2\<close> is not zero).\<close>

definition plain_grid :: geotransform where
  "plain_grid =
     \<lparr>g0 = Fin 100, g1 = Fin 2, g2 = Fin 0, g3 = Fin 50, g4 = Fin 0, g5 = Fin (-2)\<rparr>"

definition sheared :: geotransform where
  "sheared = \<lparr>g0 = Fin 0, g1 = Fin 1, g2 = Fin 1, g3 = Fin 0, g4 = Fin 0, g5 = Fin 1\<rparr>"

text \<open>A grid with a rotation term (\<open>g4\<close> is not zero) and an offset.\<close>

definition rotated :: geotransform where
  "rotated = \<lparr>g0 = Fin 10, g1 = Fin 1, g2 = Fin 0, g3 = Fin 0, g4 = Fin 1, g5 = Fin 1\<rparr>"

text \<open>
  A double-precision band and an integer band, each with a declared no-data value, and a
  single-precision band: its no-data value is the double \<^verbatim>\<open>0.1\<close>, its first element the
  single-precision \<^verbatim>\<open>0.1\<close>, which is another number.
\<close>

definition float_gdal_band :: gdal_band where
  "float_gdal_band =
     \<lparr>GetNoDataValue = Some (Fin (-9999)),
      ReadAsArray = Inr (FloatArray Float64 [[Fin 1, Fin (-9999)], [NaN, Fin 4]]),
      ReadRaster = (\<lambda>xoff yoff xsize ysize. Inr [1, 0])\<rparr>"

definition int_gdal_band :: gdal_band where
  "int_gdal_band =
     \<lparr>GetNoDataValue = Some (Fin 0),
      ReadAsArray = Inr (IntArray [[0, 1], [2, 0]]),
      ReadRaster = (\<lambda>xoff yoff xsize ysize. Inr [255, 255])\<rparr>"

definition single_gdal_band :: gdal_band where
  "single_gdal_band =
     \<lparr>GetNoDataValue = Some (Fin (3602879701896397 / 36028797018963968)),
      ReadAsArray = Inr (FloatArray Float32 [[Fin (13421773 / 134217728), Fin (1 / 2)]]),
      ReadRaster = (\<lambda>xoff yoff xsize ysize. Inr [0, 0])\<rparr>"

definition band_of :: "gdal_band \<Rightarrow> nodata_val \<Rightarrow> band" where
  "band_of gb nd =
     \<lparr>b_dataset = dataset_of plain_grid, index = 0, b_gdal = gb, b_shape = (2, 3),
      nodata = nd\<rparr>"

text \<open>
  A file with three bands and a projection, and three behaviours of the projection
  libraries: every call succeeds; no geographic coordinate system is found; \<^verbatim>\<open>from_string\<close>
  raises \<^verbatim>\<open>ValueError\<close>.
\<close>

definition sample_gdal :: gdal_dataset where
  "sample_gdal =
     \<lparr>RasterYSize = 2, RasterXSize = 2, GetGeoTransform = plain_grid,
      RasterBands = [float_gdal_band, int_gdal_band, single_gdal_band],
      GetProjection = Inr ''PROJCS''\<rparr>"

definition sample_lib :: library where
  "sample_lib =
     \<lparr>G_Open = (\<lambda>filename. if filename = ''a.tif'' then Inr sample_gdal else Inl RuntimeError),
      ImportFromWkt = (\<lambda>s w. Inr (SpatialReference w)),
      ExportToProj4 = (\<lambda>s. case s of SpatialReference w \<Rightarrow> Inr (''+'' @ w)),
      CloneGeogCS = (\<lambda>s. Inr (Some (SpatialReference ''GEOGCS''))),
      from_string = (\<lambda>p. Inr [(''init'', p)])\<rparr>"

definition unprojected_lib :: library where
  "unprojected_lib = sample_lib\<lparr>CloneGeogCS := (\<lambda>s. Inr None)\<rparr>"

definition broken_lib :: library where
  "broken_lib = sample_lib\<lparr>from_string := (\<lambda>p. Inl ValueError)\<rparr>"

definition sample_dataset :: dataset where
  "sample_dataset =
     \<lparr>gdal = Some sample_gdal, shape = (2, 2), wkt = Some ''PROJCS'',
      osr = Some (SpatialReference ''PROJCS''), crs_of = Some [(''init'', ''+PROJCS'')],
      gcs = Some [(''init'', ''+GEOGCS'')], projected = Some True\<rparr>"




text \<open>
  Helpers under which points and lines have zero area and \<^verbatim>\<open>nearest\<close> returns the
  geometry it is given.
\<close>

definition sample_env :: helpers where
  "sample_env =
     \<lparr>nearest = (\<lambda>arr g. Inr g),
      dataset_extract_area = (\<lambda>ds g bands. Inl RuntimeError),
      area = (\<lambda>g. case g of Polygon shell holes \<Rightarrow> Fin 1 | _ \<Rightarrow> Fin 0)\<rparr>"

section \<open>Properties\<close>

subsection \<open>Floating-point arithmetic\<close>

declare expo_up.simps [simp del] expo_down.simps [simp del]

lemmas float_eval =
  to_float64_def to_float32_def fround_def round_half_even_def Let_def
  expo_up.simps expo_down.simps

text \<open>
  Small integers are computed exactly; \<^verbatim>\<open>0.1 + 0.2\<close> is the double above \<^verbatim>\<open>0.3\<close>; adding 1
  to \<^verbatim>\<open>1e17\<close> changes nothing; 2 to the power 128 is too large for single precision.
\<close>

lemma fadd_small: "fadd (Fin 10) (Fin 1) = Fin 11"
  by (simp add: float_eval)

lemma fadd_tenths:
  "fadd (Fin (3602879701896397 / 36028797018963968)) (Fin (3602879701896397 / 18014398509481984))
     = Fin (1351079888211149 / 4503599627370496)"
  by (simp add: float_eval)

lemma fadd_absorbs: "fadd (Fin 100000000000000000) (Fin 1) = Fin 100000000000000000"
  by (simp add: float_eval)

lemma to_float32_overflows: "to_float32 (2 ^ 128) = PInf"
  by (simp add: float_eval)


subsection \<open>Pixel and map coordinates\<close>

text \<open>
  C1 does not hold of the code. The sheared grid \<open>(0, 1, 1, 0, 0, 1)\<close> is an invertible
  geotransform; \<^verbatim>\<open>map_coordinates\<close> takes the pixel \<open>(0, 1)\<close> to \<open>(1, 1)\<close>, and
  \<^verbatim>\<open>pixel_coordinates\<close> takes \<open>(1, 1)\<close> to \<open>(1, 1)\<close>, not back to \<open>(0, 1)\<close>. Every
  number involved is a small integer, computed exactly.
\<close>

theorem roundtrip_fails_on_shear:
  "map_coordinates (dataset_of sheared) (Point (Fin 0, Fin 1, None))
     = Inr (Point (Fin 1, Fin 1, None)) \<and>
   pixel_coordinates (dataset_of sheared) (Point (Fin 1, Fin 1, None)) False
     = Inr (Point (Fin 1, Fin 1, None))"
  by (simp add: map_coordinates_def pixel_coordinates_def pixel_project_coord_def
      geomatrix_def dataset_of_def sheared_def map_project_coord_def fsub_def float_eval)

lemma map_project_coord_closed_form:
  "map_project_coord g (x, y, z) =
     (fadd (fadd (g0 g) (fmul (g1 g) x)) (fmul (g2 g) y),
      fadd (fadd (g3 g)
              (fmul (g4 g) (fadd (fadd (g0 g) (fmul (g1 g) x)) (fmul (g2 g) y))))
           (fmul (g5 g) y), z)"
  by (simp add: map_project_coord_def Let_def)

text \<open>
  C2 does not hold of the code. With the geotransform \<open>(10, 1, 0, 0, 1, 1)\<close> the vertex
  \<open>(1, 0)\<close> should go to \<open>(11, 1)\<close>; \<^verbatim>\<open>project_coord\<close> computes \<open>y\<close> from the \<open>x\<close>
  it has just overwritten and returns \<open>(11, 11)\<close>.
\<close>

theorem map_coordinates_reads_new_x:
  "map_project_coord rotated (Fin 1, Fin 0, None) = (Fin 11, Fin 11, None) \<and>
   affine_spec rotated (Fin 1, Fin 0, None) = (Fin 11, Fin 1, None) \<and>
   map_coordinates (dataset_of rotated) (Point (Fin 1, Fin 0, None))
     = Inr (Point (Fin 11, Fin 11, None))"
  by (simp add: map_project_coord_def affine_spec_def rotated_def map_coordinates_def
      geomatrix_def dataset_of_def float_eval)

text \<open>
  \<^verbatim>\<open>project_coord\<close> of \<^verbatim>\<open>pixel_coordinates\<close> never reads \<^verbatim>\<open>g[2]\<close> or \<^verbatim>\<open>g[4]\<close>: its result
  is the same whatever they are.
\<close>

lemma pixel_project_coord_ignores_g2_g4:
  "pixel_project_coord (dataset_of (g\<lparr>g2 := a, g4 := b\<rparr>)) snap c
     = pixel_project_coord (dataset_of g) snap c"
  by (cases c)
     (simp add: pixel_project_coord_def geomatrix_def dataset_of_def split: sum.splits)

text \<open>
  C3 does not hold of the code. The sheared grid \<open>(0, 1, 1, 0, 0, 1)\<close> is invertible
  (its determinant \<open>g1 \<cdot> g5 - g2 \<cdot> g4\<close> is 1) and its affine map sends \<open>(0, 1)\<close> to
  \<open>(1, 1)\<close>. For the vertex \<open>(1, 1)\<close>, \<^verbatim>\<open>project_coord\<close> of \<^verbatim>\<open>pixel_coordinates\<close> returns
  \<open>(1, 1)\<close>, which the affine map sends to \<open>(2, 1)\<close>.
\<close>

theorem pixel_coordinates_ignores_shear:
  "fsub (fmul (g1 sheared) (g5 sheared)) (fmul (g2 sheared) (g4 sheared)) = Fin 1 \<and>
   affine_spec sheared (Fin 0, Fin 1, None) = (Fin 1, Fin 1, None) \<and>
   pixel_project_coord (dataset_of sheared) False (Fin 1, Fin 1, None)
     = Inr (Fin 1, Fin 1, None) \<and>
   affine_spec sheared (Fin 1, Fin 1, None) = (Fin 2, Fin 1, None)"
  by (simp add: affine_spec_def sheared_def pixel_project_coord_def geomatrix_def
      dataset_of_def fsub_def float_eval)

subsection \<open>Reading a band's array\<close>



lemma np_eq_NaN [simp]: "\<not> np_eq NaN v"
  by (simp add: np_eq_def)





text \<open>
  C10. When the raster can be read, \<^verbatim>\<open>get_array('nan')\<close>, and \<^verbatim>\<open>get_array()\<close> on a band
  whose \<^verbatim>\<open>nodata\<close> is \<^verbatim>\<open>'nan'\<close>, return a masked array over the raster whose mask is true
  exactly at the NaN elements (nowhere on an integer raster); with any other \<^verbatim>\<open>nodata\<close>
  the result is a plain array.
\<close>

theorem get_array_nan_masked:
  assumes "ReadAsArray (b_gdal self) = Inr arr"
  shows "get_array self NanStr = Inr (Masked arr (isnan arr)) \<and>
         (nodata self = NanStr \<longrightarrow> get_array self PyNone = Inr (Masked arr (isnan arr))) \<and>
         (\<forall>dt rows. arr = FloatArray dt rows \<longrightarrow>
            list_all2 (list_all2 (\<lambda>e b. b \<longleftrightarrow> e = NaN)) rows (isnan arr)) \<and>
         (\<forall>rows. arr = IntArray rows \<longrightarrow>
            list_all2 (list_all2 (\<lambda>e b. \<not> b)) rows (isnan arr)) \<and>
         (nd \<noteq> NanStr \<and> (nd = PyNone \<longrightarrow> nodata self \<noteq> NanStr) \<longrightarrow>
            (\<exists>a. get_array self nd = Inr (Plain a)))"
proof (intro conjI allI impI)
  show "get_array self NanStr = Inr (Masked arr (isnan arr))"
    using assms by (simp add: get_array_def)
  show "get_array self PyNone = Inr (Masked arr (isnan arr))" if "nodata self = NanStr"
    using assms that by (simp add: get_array_def)
  show "list_all2 (list_all2 (\<lambda>e b. b \<longleftrightarrow> e = NaN)) rows (isnan arr)"
    if "arr = FloatArray dt rows" for dt rows
    using that by (simp add: list_all2_map2 list_all2_same)
  show "list_all2 (list_all2 (\<lambda>e b. \<not> b)) rows (isnan arr)"
    if "arr = IntArray rows" for rows
    using that by (simp add: list_all2_map2 list_all2_same)
  show "\<exists>a. get_array self nd = Inr (Plain a)"
    if "nd \<noteq> NanStr \<and> (nd = PyNone \<longrightarrow> nodata self \<noteq> NanStr)"
  proof (cases "if nd = PyNone then nodata self else nd")
    case PyNone
    with assms that show ?thesis by (simp add: get_array_def)
  next
    case NanStr
    with that show ?thesis by (auto split: if_splits)
  next
    case (PyFloat v)
    with assms that show ?thesis
      by (cases arr) (simp_all add: get_array_def)
  qed
qed

theorem get_array_nan_masked_witness:
  "ReadAsArray (b_gdal (band_of float_gdal_band (PyFloat (Fin (-9999)))))
     = Inr (FloatArray Float64 [[Fin 1, Fin (-9999)], [NaN, Fin 4]]) \<and>
   get_array (band_of float_gdal_band (PyFloat (Fin (-9999)))) NanStr
     = Inr (Masked (FloatArray Float64 [[Fin 1, Fin (-9999)], [NaN, Fin 4]])
                   [[False, False], [True, False]]) \<and>
   get_array (band_of float_gdal_band NanStr) PyNone
     = Inr (Masked (FloatArray Float64 [[Fin 1, Fin (-9999)], [NaN, Fin 4]])
                   [[False, False], [True, False]]) \<and>
   (\<exists>a. get_array (band_of float_gdal_band (PyFloat (Fin (-9999)))) (PyFloat (Fin 1)) = Inr (Plain a))"
proof -
  let ?b = "band_of float_gdal_band (PyFloat (Fin (-9999)))"
  let ?c = "band_of float_gdal_band NanStr"
  have a: "ReadAsArray (b_gdal ?b)
             = Inr (FloatArray Float64 [[Fin 1, Fin (-9999)], [NaN, Fin 4]])"
    by (simp add: band_of_def float_gdal_band_def)
  have c: "ReadAsArray (b_gdal ?c)
             = Inr (FloatArray Float64 [[Fin 1, Fin (-9999)], [NaN, Fin 4]])"
    by (simp add: band_of_def float_gdal_band_def)
  have n: "nodata ?c = NanStr" by (simp add: band_of_def)
  from get_array_nan_masked [OF a, of "PyFloat (Fin 1)"]
       get_array_nan_masked [OF c, of PyNone] a n
  show ?thesis by simp
qed

subsection \<open>Constructing datasets and bands\<close>

lemma projection_block_frame:
  "gdal (snd (projection_block lib h s)) = gdal s \<and>
   shape (snd (projection_block lib h s)) = shape s"
  by (simp add: projection_block_def Let_def split: sum.splits option.splits)

lemma Dataset_init_frame:
  assumes "G_Open lib filename = Inr h" and "Dataset_init lib filename = Inr ds"
  shows "gdal ds = Some h \<and> shape ds = (RasterYSize h, RasterXSize h)"
proof -
  obtain r s where ps: "projection_block lib h (Dataset_blank h) = (r, s)"
    by (cases "projection_block lib h (Dataset_blank h)")
  with projection_block_frame [of lib h "Dataset_blank h"]
  have s: "gdal s = Some h" "shape s = (RasterYSize h, RasterXSize h)"
    by (simp_all add: Dataset_blank_def)
  from assms ps have "ds = s \<or> ds = s\<lparr>projected := Some False\<rparr>"
    by (auto simp: Dataset_init_def split: option.splits if_splits)
  with s show ?thesis by auto
qed

lemma sample_open: "G_Open sample_lib ''a.tif'' = Inr sample_gdal"
  by (simp add: sample_lib_def)

lemma unprojected_open: "G_Open unprojected_lib ''a.tif'' = Inr sample_gdal"
  by (simp add: unprojected_lib_def sample_lib_def)

lemma broken_open: "G_Open broken_lib ''a.tif'' = Inr sample_gdal"
  by (simp add: broken_lib_def sample_lib_def)

lemma sample_init: "Dataset_init sample_lib ''a.tif'' = Inr sample_dataset"
  by (simp add: Dataset_init_def projection_block_def Dataset_blank_def sample_lib_def
      sample_gdal_def sample_dataset_def)

text \<open>
  C5. Once the file is open: if the steps of the \<^verbatim>\<open>try\<close> block succeed up to
  \<^verbatim>\<open>CloneGeogCS()\<close> and that call returns \<^verbatim>\<open>None\<close> (so that the next attribute access
  raises \<^verbatim>\<open>AttributeError\<close>), or more generally if the block ends in \<^verbatim>\<open>AttributeError\<close>,
  the constructor returns a dataset with \<^verbatim>\<open>projected\<close> false; if every step succeeds,
  \<^verbatim>\<open>projected\<close> is true and \<^verbatim>\<open>wkt\<close>, \<^verbatim>\<open>crs\<close> and \<^verbatim>\<open>gcs\<close> hold the values read; an
  exception of the block other than \<^verbatim>\<open>AttributeError\<close> is raised by the constructor.
\<close>

theorem Dataset_init_projection:
  assumes "G_Open lib filename = Inr h"
  shows "(GetProjection h = Inr w \<and> ImportFromWkt lib (SpatialReference []) w = Inr s \<and>
          ExportToProj4 lib s = Inr p \<and> from_string lib p = Inr c \<and>
          CloneGeogCS lib s = Inr None \<longrightarrow>
            (\<exists>ds. Dataset_init lib filename = Inr ds \<and> projected ds = Some False)) \<and>
         (fst (projection_block lib h (Dataset_blank h)) = Some AttributeError \<longrightarrow>
            (\<exists>ds. Dataset_init lib filename = Inr ds \<and> projected ds = Some False)) \<and>
         (GetProjection h = Inr w \<and> ImportFromWkt lib (SpatialReference []) w = Inr s \<and>
          ExportToProj4 lib s = Inr p \<and> from_string lib p = Inr c \<and>
          CloneGeogCS lib s = Inr (Some gs) \<and> ExportToProj4 lib gs = Inr p' \<and>
          from_string lib p' = Inr c' \<longrightarrow>
            (\<exists>ds. Dataset_init lib filename = Inr ds \<and> projected ds = Some True \<and>
                  wkt ds = Some w \<and> crs_of ds = Some c \<and> gcs ds = Some c')) \<and>
         (fst (projection_block lib h (Dataset_blank h)) = Some e \<and> e \<noteq> AttributeError \<longrightarrow>
            Dataset_init lib filename = Inl e)"
proof (intro conjI impI)
  assume "GetProjection h = Inr w \<and> ImportFromWkt lib (SpatialReference []) w = Inr s \<and>
          ExportToProj4 lib s = Inr p \<and> from_string lib p = Inr c \<and>
          CloneGeogCS lib s = Inr None"
  with assms show "\<exists>ds. Dataset_init lib filename = Inr ds \<and> projected ds = Some False"
    by (simp add: Dataset_init_def projection_block_def)
next
  assume "fst (projection_block lib h (Dataset_blank h)) = Some AttributeError"
  with assms show "\<exists>ds. Dataset_init lib filename = Inr ds \<and> projected ds = Some False"
    by (cases "projection_block lib h (Dataset_blank h)") (simp add: Dataset_init_def)
next
  assume "GetProjection h = Inr w \<and> ImportFromWkt lib (SpatialReference []) w = Inr s \<and>
          ExportToProj4 lib s = Inr p \<and> from_string lib p = Inr c \<and>
          CloneGeogCS lib s = Inr (Some gs) \<and> ExportToProj4 lib gs = Inr p' \<and>
          from_string lib p' = Inr c'"
  with assms show "\<exists>ds. Dataset_init lib filename = Inr ds \<and> projected ds = Some True \<and>
                  wkt ds = Some w \<and> crs_of ds = Some c \<and> gcs ds = Some c'"
    by (simp add: Dataset_init_def projection_block_def)
next
  assume "fst (projection_block lib h (Dataset_blank h)) = Some e \<and> e \<noteq> AttributeError"
  with assms show "Dataset_init lib filename = Inl e"
    by (cases "projection_block lib h (Dataset_blank h)") (simp add: Dataset_init_def)
qed

theorem Dataset_init_projection_witness:
  "G_Open sample_lib ''a.tif'' = Inr sample_gdal \<and>
   (\<exists>ds. Dataset_init sample_lib ''a.tif'' = Inr ds \<and> projected ds = Some True \<and>
         wkt ds = Some ''PROJCS'' \<and> crs_of ds = Some [(''init'', ''+PROJCS'')] \<and>
         gcs ds = Some [(''init'', ''+GEOGCS'')]) \<and>
   (\<exists>ds. Dataset_init unprojected_lib ''a.tif'' = Inr ds \<and> projected ds = Some False) \<and>
   fst (projection_block broken_lib sample_gdal (Dataset_blank sample_gdal)) = Some ValueError \<and>
   Dataset_init broken_lib ''a.tif'' = Inl ValueError"
proof -
  have ok: "GetProjection sample_gdal = Inr ''PROJCS'' \<and>
      ImportFromWkt sample_lib (SpatialReference []) ''PROJCS'' = Inr (SpatialReference ''PROJCS'') \<and>
      ExportToProj4 sample_lib (SpatialReference ''PROJCS'') = Inr ''+PROJCS'' \<and>
      from_string sample_lib ''+PROJCS'' = Inr [(''init'', ''+PROJCS'')] \<and>
      CloneGeogCS sample_lib (SpatialReference ''PROJCS'') = Inr (Some (SpatialReference ''GEOGCS'')) \<and>
      ExportToProj4 sample_lib (SpatialReference ''GEOGCS'') = Inr ''+GEOGCS'' \<and>
      from_string sample_lib ''+GEOGCS'' = Inr [(''init'', ''+GEOGCS'')]"
    by (simp add: sample_lib_def sample_gdal_def)
  have un: "GetProjection sample_gdal = Inr ''PROJCS'' \<and>
      ImportFromWkt unprojected_lib (SpatialReference []) ''PROJCS'' = Inr (SpatialReference ''PROJCS'') \<and>
      ExportToProj4 unprojected_lib (SpatialReference ''PROJCS'') = Inr ''+PROJCS'' \<and>
      from_string unprojected_lib ''+PROJCS'' = Inr [(''init'', ''+PROJCS'')] \<and>
      CloneGeogCS unprojected_lib (SpatialReference ''PROJCS'') = Inr None"
    by (simp add: unprojected_lib_def sample_lib_def sample_gdal_def)
  have br: "fst (projection_block broken_lib sample_gdal (Dataset_blank sample_gdal)) = Some ValueError
      \<and> ValueError \<noteq> AttributeError"
    by (simp add: projection_block_def broken_lib_def sample_lib_def sample_gdal_def)
  note t1 = Dataset_init_projection [OF sample_open, THEN conjunct2, THEN conjunct2,
      THEN conjunct1, rule_format, OF ok]
  note t2 = Dataset_init_projection [OF unprojected_open, THEN conjunct1, rule_format, OF un]
  note t3 = Dataset_init_projection [OF broken_open, THEN conjunct2, THEN conjunct2,
      THEN conjunct2, rule_format, OF br]
  from t1 t2 t3 br sample_open show ?thesis by simp
qed

text \<open>
  C6. For a dataset made by the constructor, \<^verbatim>\<open>shape\<close> is
  \<^verbatim>\<open>(RasterYSize, RasterXSize)\<close> of the opened file, every band that \<^verbatim>\<open>get_band\<close> or the
  \<^verbatim>\<open>Band\<close> constructor returns for it has that same shape, and \<^verbatim>\<open>get_band\<close> does return a
  band for every index from 0 below the number of bands.
\<close>

theorem band_shape_matches_dataset:
  assumes "G_Open lib filename = Inr h" and "Dataset_init lib filename = Inr ds"
  shows "shape ds = (RasterYSize h, RasterXSize h) \<and>
         (\<forall>b. get_band ds idx = Inr b \<longrightarrow> b_shape b = (RasterYSize h, RasterXSize h)) \<and>
         (\<forall>b. Band_init ds idx = Inr b \<longrightarrow> b_shape b = (RasterYSize h, RasterXSize h)) \<and>
         (0 \<le> idx \<and> idx < int (length (RasterBands h)) \<longrightarrow> (\<exists>b. get_band ds idx = Inr b))"
proof -
  from Dataset_init_frame [OF assms]
  have g: "gdal ds = Some h" and s: "shape ds = (RasterYSize h, RasterXSize h)" by simp_all
  have b: "b_shape b = (RasterYSize h, RasterXSize h)" if "Band_init ds idx = Inr b" for b
    using that g s by (auto simp: Band_init_def split: sum.splits)
  have e: "\<exists>b. get_band ds idx = Inr b" if "0 \<le> idx \<and> idx < int (length (RasterBands h))"
    using that g by (simp add: get_band_def Band_init_def GetRasterBand_def)
  from s b e show ?thesis by (simp add: get_band_def)
qed

theorem band_shape_matches_dataset_witness:
  "G_Open sample_lib ''a.tif'' = Inr sample_gdal \<and>
   Dataset_init sample_lib ''a.tif'' = Inr sample_dataset \<and>
   shape sample_dataset = (2, 2) \<and>
   (\<exists>b. get_band sample_dataset 1 = Inr b \<and> b_shape b = (2, 2) \<and> b_gdal b = int_gdal_band)"
proof -
  note i = sample_init
  have r: "0 \<le> (1::int) \<and> 1 < int (length (RasterBands sample_gdal))"
    by (simp add: sample_gdal_def)
  note t = band_shape_matches_dataset [OF sample_open i, of 1]
  from t r obtain b where b: "get_band sample_dataset 1 = Inr b" by blast
  with t have "b_shape b = (2, 2)" by (simp add: sample_gdal_def)
  moreover from b have "b_gdal b = int_gdal_band"
    by (auto simp: get_band_def Band_init_def GetRasterBand_def sample_dataset_def
        sample_gdal_def)
  ultimately show ?thesis using b i t sample_open by (simp add: sample_gdal_def)
qed

subsection \<open>Closing\<close>

text \<open>
  C7. \<^verbatim>\<open>close\<close> sets \<^verbatim>\<open>__gdal__\<close> to \<^verbatim>\<open>None\<close> and changes no other attribute;
  \<^verbatim>\<open>__exit__\<close> closes the manager's dataset whatever its exception arguments; and a
  \<^verbatim>\<open>with\<close> statement over \<^verbatim>\<open>open\<close> whose dataset could be constructed ends with that
  dataset closed, whether the body raised or returned, with the body's outcome as its own.
\<close>

theorem close_releases_handle:
  "gdal (close ds) = None \<and> shape (close ds) = shape ds \<and> wkt (close ds) = wkt ds \<and>
   osr (close ds) = osr ds \<and> crs_of (close ds) = crs_of ds \<and> gcs (close ds) = gcs ds \<and>
   projected (close ds) = projected ds \<and>
   open_exit mgr exc = \<lparr>image = close (image mgr)\<rparr> \<and>
   (Dataset_init lib filename = Inr d \<longrightarrow>
      with_open lib filename body = (fst (body d), Some \<lparr>image = close (snd (body d))\<rparr>))"
  by (cases "body d")
     (simp add: close_def open_exit_def with_open_def open_init_def open_enter_def)

theorem close_releases_handle_witness:
  "Dataset_init sample_lib ''a.tif'' = Inr sample_dataset \<and>
   with_open sample_lib ''a.tif'' (\<lambda>d. (Inl ValueError :: exn + nat, d))
     = (Inl ValueError, Some \<lparr>image = sample_dataset\<lparr>gdal := None\<rparr>\<rparr>) \<and>
   with_open sample_lib ''a.tif'' (\<lambda>d. (Inr (7::nat), d))
     = (Inr 7, Some \<lparr>image = sample_dataset\<lparr>gdal := None\<rparr>\<rparr>)"
proof -
  note i = sample_init
  note t1 = close_releases_handle [of sample_dataset "\<lparr>image = sample_dataset\<rparr>" None
      sample_lib "''a.tif''" sample_dataset "\<lambda>d. (Inl ValueError :: exn + nat, d)"]
  note t2 = close_releases_handle [of sample_dataset "\<lparr>image = sample_dataset\<rparr>" None
      sample_lib "''a.tif''" sample_dataset "\<lambda>d. (Inr (7::nat), d)"]
  from t1 t2 i show ?thesis by (simp add: close_def)
qed

subsection \<open>Single pixels and extraction\<close>

lemma load_name_parameter:
  "load_name [(''self'', s), (''x'', x), (''y'', y)] ''x'' = Inr x \<and>
   load_name [(''self'', s), (''x'', x), (''y'', y)] ''G'' = Inr (PyNamed ''G'')"
  by (simp add: load_name_def module_globals_def)

text \<open>
  C8. \<^verbatim>\<open>get_pixel\<close> raises \<^verbatim>\<open>NameError\<close> for every band and every pair of arguments:
  \<^verbatim>\<open>px\<close> is neither a parameter, nor a name of the module, nor a builtin.
\<close>

theorem get_pixel_raises_NameError: "get_pixel self x y = Inl NameError"
  by (simp add: get_pixel_def load_name_def module_globals_def builtins_def)

text \<open>
  C9. \<^verbatim>\<open>extract\<close> with any strategy returns what it returns with \<^verbatim>\<open>strategies.nearest\<close>;
  and when the geometry in pixel coordinates has zero area and the array can be read, the
  result is \<^verbatim>\<open>strategies.nearest\<close> applied to the array and that geometry, taken to map
  coordinates.
\<close>

theorem extract_ignores_strategy:
  "Band_extract env self geom s = Band_extract env self geom (nearest env) \<and>
   (pixel_coordinates (b_dataset self) geom False = Inr pg \<and> area env pg = Fin 0 \<and>
    get_array self PyNone = Inr arr \<longrightarrow>
      Band_extract env self geom s =
        (case nearest env arr pg of
           Inl e \<Rightarrow> Inl e
         | Inr pixels \<Rightarrow> map_coordinates (b_dataset self) pixels))"
  by (simp add: Band_extract_def extract_pixels_def)

theorem extract_ignores_strategy_witness:
  "pixel_coordinates (b_dataset (band_of float_gdal_band PyNone))
       (Point (Fin 102, Fin 46, None)) False
     = Inr (Point (Fin 1, Fin 2, None)) \<and>
   area sample_env (Point (Fin 1, Fin 2, None)) = Fin 0 \<and>
   get_array (band_of float_gdal_band PyNone) PyNone
     = Inr (Plain (FloatArray Float64 [[Fin 1, Fin (-9999)], [NaN, Fin 4]])) \<and>
   Band_extract sample_env (band_of float_gdal_band PyNone) (Point (Fin 102, Fin 46, None))
       (\<lambda>arr g. Inl ValueError)
     = Inr (Point (Fin 102, Fin 46, None))"
proof -
  let ?b = "band_of float_gdal_band PyNone"
  have p: "pixel_coordinates (b_dataset ?b) (Point (Fin 102, Fin 46, None)) False
             = Inr (Point (Fin 1, Fin 2, None))"
    by (simp add: pixel_coordinates_def pixel_project_coord_def geomatrix_def fsub_def
        band_of_def dataset_of_def plain_grid_def float_eval)
  have a: "area sample_env (Point (Fin 1, Fin 2, None)) = Fin 0"
    by (simp add: sample_env_def)
  have g: "get_array ?b PyNone
             = Inr (Plain (FloatArray Float64 [[Fin 1, Fin (-9999)], [NaN, Fin 4]]))"
    by (simp add: get_array_def band_of_def float_gdal_band_def)
  from p a g
  have h: "pixel_coordinates (b_dataset ?b) (Point (Fin 102, Fin 46, None)) False
             = Inr (Point (Fin 1, Fin 2, None)) \<and>
           area sample_env (Point (Fin 1, Fin 2, None)) = Fin 0 \<and>
           get_array ?b PyNone
             = Inr (Plain (FloatArray Float64 [[Fin 1, Fin (-9999)], [NaN, Fin 4]]))"
    by simp
  have m: "map_coordinates (b_dataset ?b) (Point (Fin 1, Fin 2, None))
             = Inr (Point (Fin 102, Fin 46, None))"
    by (simp add: map_coordinates_def map_project_coord_def geomatrix_def band_of_def
        dataset_of_def plain_grid_def float_eval)
  note t = extract_ignores_strategy [of sample_env ?b "Point (Fin 102, Fin 46, None)"
      "\<lambda>arr g. Inl ValueError" "Point (Fin 1, Fin 2, None)"
      "Plain (FloatArray Float64 [[Fin 1, Fin (-9999)], [NaN, Fin 4]])",
      THEN conjunct2, rule_format, OF h]
  from t h m show ?thesis by (simp add: sample_env_def)
qed

end
